theory Spec2Isabelle
  imports Main "HOL-Library.Word" "HOL-Library.Code_Target_Nat"
begin

section \<open>Values shared by all operations\<close>

text \<open>
  The embedding follows \<^verbatim>\<open>internal/smtpClient/imap.go\<close>. Go's \<^verbatim>\<open>uint32\<close> is a 32-bit
  word. Go's \<^verbatim>\<open>int\<close> is taken at its width on the 64-bit targets, a 64-bit word read as
  two's complement by \<open>sint\<close>; arithmetic on both wraps around, and the conversion
  \<^verbatim>\<open>uint32(x)\<close> of an \<^verbatim>\<open>int\<close> keeps the low 32 bits (\<open>ucast\<close>).
\<close>

type_synonym uint32 = "32 word"
type_synonym go_int = "64 word"

text \<open>A \<^verbatim>\<open>time.Time\<close> is only copied by the code; it is an opaque number here.\<close>

type_synonym time = int

text \<open>
  Go errors. \<open>Msg s\<close> is \<^verbatim>\<open>fmt.Errorf(s)\<close> and any error a library reports;
  \<open>Wrap ctx e\<close> is \<^verbatim>\<open>fmt.Errorf(ctx + ": %w", e)\<close>; \<open>NumError fn num e\<close> is the
  \<^verbatim>\<open>*strconv.NumError\<close> of a failed conversion.
\<close>

datatype error = Msg string | Wrap string error | NumError string string error

section \<open>Decimal text of numbers\<close>

text \<open>\<^verbatim>\<open>fmt.Sprintf("%d", n)\<close>: the decimal digits of \<open>n\<close>, without leading zeros.\<close>

definition digit_char :: "nat \<Rightarrow> char" where
  "digit_char d = ''0123456789'' ! d"

fun decimal :: "nat \<Rightarrow> string" where
  "decimal n = (if n < 10 then [digit_char n] else decimal (n div 10) @ [digit_char (n mod 10)])"

declare decimal.simps [simp del]

definition decimal_int :: "int \<Rightarrow> string" where
  "decimal_int i = (if i < 0 then CHR ''-'' # decimal (nat (- i)) else decimal (nat i))"

section \<open>The pagination arithmetic\<close>

text \<open>
  Lines 147 to 169 of \<^verbatim>\<open>GetInbox\<close>, repeated word for word at lines 236 to 262 of
  \<^verbatim>\<open>GetFolderMessages\<close>: from the mailbox's message count and the page request to
  the sequence numbers to fetch. Go's three exits are the three constructors:
  the count is \<open>0\<close>; the offset, cut to 32 bits, is not below the count; or the
  closed range from \<open>to\<close> up to \<open>from\<close> (\<open>PageRange to from\<close>).
\<close>

datatype page_range = EmptyMailbox | PastEnd | PageRange (range_to: uint32) (range_from: uint32)

definition page_range :: "uint32 \<Rightarrow> go_int \<Rightarrow> go_int \<Rightarrow> page_range" where
  "page_range totalCount page pageSize =
     (if totalCount = 0 then EmptyMailbox
      else
        let offset = (page - 1) * pageSize in
        if (ucast offset :: uint32) \<ge> totalCount then PastEnd
        else
          let from = totalCount - ucast offset;
              to = (if from > ucast pageSize then from - ucast pageSize + 1 else 1)
          in PageRange to from)"

section \<open>The data model\<close>

subsection \<open>What the IMAP library delivers\<close>

text \<open>
  The types of \<^verbatim>\<open>github.com/emersion/go-imap\<close> that the code reads, with the fields it
  reads. \<open>Address\<close> is the library's method of that name: mailbox, \<^verbatim>\<open>@\<close>, host.
  A fetched record carries its envelope, as every fetch of this file asks for it; the
  literals of \<^verbatim>\<open>msg.Body\<close> are kept in the order in which Go's \<^verbatim>\<open>range\<close> visits them, and
  their content is left to the MIME library (type \<open>'l\<close>).
\<close>

record address =
  PersonalName :: string
  AtDomainList :: string
  MailboxName :: string
  HostName :: string

definition Address :: "address \<Rightarrow> string" where
  "Address addr = MailboxName addr @ ''@'' @ HostName addr"

record envelope =
  env_Date :: time
  env_Subject :: string
  env_From :: "address list"
  env_To :: "address list"

record 'l imap_message =
  SeqNum :: uint32
  Envelope :: envelope
  msg_Flags :: "string list"
  msg_Size :: uint32
  msg_Body :: "'l list"

record mailbox_status =
  mbox_Messages :: uint32

text \<open>
  A \<^verbatim>\<open>*imap.SeqSet\<close> as the code builds it: a fresh set with one \<^verbatim>\<open>AddRange(to, from)\<close>
  or one \<^verbatim>\<open>AddNum(n)\<close>. The fetch items are the library's constants.
\<close>

datatype seq_set = AddRange uint32 uint32 | AddNum uint32

definition FetchEnvelope :: string where "FetchEnvelope = ''ENVELOPE''"
definition FetchFlags :: string where "FetchFlags = ''FLAGS''"
definition FetchBodyStructure :: string where "FetchBodyStructure = ''BODYSTRUCTURE''"
definition FetchRFC822Size :: string where "FetchRFC822Size = ''RFC822.SIZE''"

record tls_Config =
  InsecureSkipVerify :: bool

subsection \<open>What the client returns\<close>

text \<open>
  Modelled from the spec: the declarations of \<^verbatim>\<open>Message\<close> and \<^verbatim>\<open>Attachment\<close> are in
  another file of the package; their fields are those of section 3 of the
  specification, which are the fields \<^verbatim>\<open>imap.go\<close> assigns. A field the code does not
  set has Go's zero value: the empty string, the empty list, \<open>0\<close>.
\<close>

record Attachment =
  Filename :: string
  Content :: string
  MimeType :: string

record Message =
  ID :: string
  Subject :: string
  Date :: time
  Flags :: "string list"
  From :: string
  To :: "string list"
  Size :: uint32
  Body :: string
  Attachments :: "Attachment list"

record GetInboxResult =
  inbox_Messages :: "Message list"
  inbox_TotalCount :: uint32

record GetFolderResult =
  folder_Messages :: "Message list"
  folder_TotalCount :: uint32

record IMAPConfig =
  Host :: string
  Port :: int
  Username :: string
  Password :: string

text \<open>
  The client: its configuration and \<^verbatim>\<open>c.client\<close>, which is \<open>None\<close> for Go's \<^verbatim>\<open>nil\<close>
  and otherwise holds the state \<open>'s\<close> of the library's session. The mutex is taken and
  released by every operation and plays no part in a sequential run.
\<close>

record 's IMAPClient =
  config :: IMAPConfig
  client :: "'s option"

section \<open>The libraries as parameters\<close>

text \<open>
  The session library is not part of the repository. Each of its calls is a
  parameter: from the session state and the arguments to the answer and the next
  session state. \<open>Fetch\<close> answers with the records it streams before it closes the
  channel and with the error it then sends on \<^verbatim>\<open>done\<close>.
\<close>

record ('s, 'l) imap_library =
  Dial :: "string \<Rightarrow> error + 's"
  DialTLS :: "string \<Rightarrow> tls_Config \<Rightarrow> error + 's"
  StartTLS :: "'s \<Rightarrow> tls_Config \<Rightarrow> error option \<times> 's"
  Login :: "'s \<Rightarrow> string \<Rightarrow> string \<Rightarrow> error option \<times> 's"
  Logout :: "'s \<Rightarrow> error option \<times> 's"
  Select :: "'s \<Rightarrow> string \<Rightarrow> bool \<Rightarrow> (error + mailbox_status) \<times> 's"
  Fetch :: "'s \<Rightarrow> seq_set \<Rightarrow> string list \<Rightarrow> ('l imap_message list \<times> error option) \<times> 's"

text \<open>
  What an operation did, in order: the library calls with their arguments, and the
  lines printed with \<^verbatim>\<open>fmt.Println\<close>.
\<close>

datatype event =
    EvDial string
  | EvDialTLS string tls_Config
  | EvStartTLS tls_Config
  | EvLogin string string
  | EvLogout
  | EvSelect string bool
  | EvFetch seq_set "string list"
  | EvPrintln string

fun is_call :: "event \<Rightarrow> bool" where
  "is_call (EvPrintln _) = False"
| "is_call _ = True"

text \<open>
  The MIME library (\<^verbatim>\<open>go-message/mail\<close>). \<open>CreateReader\<close> opens a literal or fails.
  One call of \<^verbatim>\<open>NextPart\<close> on a reader in state \<open>'r\<close> ends in one of three ways:
  \<^verbatim>\<open>io.EOF\<close>; another error, with the reader's next state; or a part, with the
  reader's next state. A part is given by what the code takes from it: for an
  inline header the bytes \<^verbatim>\<open>ioutil.ReadAll\<close> returns, for an attachment header the
  results of \<^verbatim>\<open>Filename\<close>, \<^verbatim>\<open>ReadAll\<close> and \<^verbatim>\<open>ContentType\<close> (their errors are dropped by
  the code), and a header of neither kind.
\<close>

datatype part =
    InlinePart string
  | AttachmentPart string string string
  | OtherPart

datatype 'r next_part = EOF | Failed 'r | Next part 'r

record ('l, 'r) mime_library =
  CreateReader :: "'l \<Rightarrow> error + 'r"
  NextPart :: "'r \<Rightarrow> 'r next_part"

section \<open>Connect and Disconnect\<close>

definition not_connected :: error where
  "not_connected = Msg ''not connected to IMAP server''"

definition server_address :: "IMAPConfig \<Rightarrow> string" where
  "server_address cfg = Host cfg @ '':'' @ decimal_int (Port cfg)"

text \<open>
  Lines 71 to 77: the login on the fresh session \<open>imapClient\<close>, shared by both
  branches of \<open>Connect\<close>. \<open>evs\<close> are the events so far. After a failed login the
  code logs the fresh session out, drops the answer and the session, and leaves
  \<^verbatim>\<open>c.client\<close> as it was.
\<close>

definition login_step ::
  "('s, 'l) imap_library \<Rightarrow> 's \<Rightarrow> event list \<Rightarrow> 's IMAPClient \<Rightarrow> error option \<times> 's IMAPClient \<times> event list"
where
  "login_step lib imapClient evs c =
     (let user = Username (config c); pass = Password (config c) in
      case Login lib imapClient user pass of
        (Some err, s1) \<Rightarrow>
          (Some (Wrap ''failed to login to IMAP server'' err), c, evs @ [EvLogin user pass, EvLogout])
      | (None, s1) \<Rightarrow>
          (None, c\<lparr>client := Some s1\<rparr>, evs @ [EvLogin user pass]))"

definition Connect ::
  "('s, 'l) imap_library \<Rightarrow> 's IMAPClient \<Rightarrow> error option \<times> 's IMAPClient \<times> event list"
where
  "Connect lib c =
     (let addr = server_address (config c) in
      if Port (config c) = 1143 then
        (case Dial lib addr of
           Inl err \<Rightarrow> (Some (Wrap ''failed to connect to IMAP server'' err), c, [EvDial addr])
         | Inr s0 \<Rightarrow>
             (let tlsConfig = \<lparr>InsecureSkipVerify = True\<rparr> in
              case StartTLS lib s0 tlsConfig of
                (Some err, s1) \<Rightarrow>
                  (Some (Wrap ''failed to start TLS'' err), c, [EvDial addr, EvStartTLS tlsConfig])
              | (None, s1) \<Rightarrow> login_step lib s1 [EvDial addr, EvStartTLS tlsConfig] c))
      else
        (let tlsConfig = \<lparr>InsecureSkipVerify = True\<rparr> in
         case DialTLS lib addr tlsConfig of
           Inl err \<Rightarrow>
             (Some (Wrap ''failed to connect to IMAP server'' err), c, [EvDialTLS addr tlsConfig])
         | Inr s0 \<Rightarrow> login_step lib s0 [EvDialTLS addr tlsConfig] c))"

definition Disconnect ::
  "('s, 'l) imap_library \<Rightarrow> 's IMAPClient \<Rightarrow> error option \<times> 's IMAPClient \<times> event list"
where
  "Disconnect lib c =
     (case client c of
        None \<Rightarrow> (None, c, [])
      | Some s \<Rightarrow>
          (case Logout lib s of
             (Some err, s1) \<Rightarrow>
               (Some (Wrap ''failed to logout from IMAP server'' err), c\<lparr>client := Some s1\<rparr>, [EvLogout])
           | (None, s1) \<Rightarrow> (None, c\<lparr>client := None\<rparr>, [EvLogout])))"

section \<open>The page operations\<close>

text \<open>
  Lines 186 to 201 and 279 to 294: the \<open>Message\<close> built from one streamed record in
  range mode. \<open>From\<close> is the first sender's address if there is one, \<open>To\<close> the
  addresses of all recipients in order.
\<close>

definition envelope_message :: "'l imap_message \<Rightarrow> Message" where
  "envelope_message msg =
     \<lparr>ID = decimal (unat (SeqNum msg)),
      Subject = env_Subject (Envelope msg),
      Date = env_Date (Envelope msg),
      Flags = msg_Flags msg,
      From = (case env_From (Envelope msg) of [] \<Rightarrow> [] | a # _ \<Rightarrow> Address a),
      To = map Address (env_To (Envelope msg)),
      Size = 0,
      Body = [],
      Attachments = []\<rparr>"

definition GetInbox ::
  "('s, 'l) imap_library \<Rightarrow> go_int \<Rightarrow> go_int \<Rightarrow> 's IMAPClient
    \<Rightarrow> (error + GetInboxResult) \<times> 's IMAPClient \<times> event list"
where
  "GetInbox lib page pageSize c =
     (case client c of
        None \<Rightarrow> (Inl not_connected, c, [])
      | Some s \<Rightarrow>
          (case Select lib s ''INBOX'' False of
             (Inl err, s1) \<Rightarrow>
               (Inl (Wrap ''failed to select inbox'' err), c\<lparr>client := Some s1\<rparr>,
                [EvSelect ''INBOX'' False])
           | (Inr mbox, s1) \<Rightarrow>
               (let totalCount = mbox_Messages mbox in
                case page_range totalCount page pageSize of
                  EmptyMailbox \<Rightarrow>
                    (Inr \<lparr>inbox_Messages = [], inbox_TotalCount = 0\<rparr>, c\<lparr>client := Some s1\<rparr>,
                     [EvSelect ''INBOX'' False])
                | PastEnd \<Rightarrow>
                    (Inr \<lparr>inbox_Messages = [], inbox_TotalCount = totalCount\<rparr>,
                     c\<lparr>client := Some s1\<rparr>, [EvSelect ''INBOX'' False])
                | PageRange to from \<Rightarrow>
                    (let seqSet = AddRange to from;
                         items = [FetchEnvelope, FetchFlags];
                         evs = [EvSelect ''INBOX'' False, EvFetch seqSet items,
                                EvPrintln ''Fetching inbox messages'']
                     in case Fetch lib s1 seqSet items of
                          ((messages, done), s2) \<Rightarrow>
                            (let result = map envelope_message messages in
                             case done of
                               Some err \<Rightarrow>
                                 (Inl (Wrap ''failed to fetch messages'' err),
                                  c\<lparr>client := Some s2\<rparr>, evs)
                             | None \<Rightarrow>
                                 (Inr \<lparr>inbox_Messages = result, inbox_TotalCount = totalCount\<rparr>,
                                  c\<lparr>client := Some s2\<rparr>, evs))))))"

definition GetFolderMessages ::
  "('s, 'l) imap_library \<Rightarrow> string \<Rightarrow> go_int \<Rightarrow> go_int \<Rightarrow> 's IMAPClient
    \<Rightarrow> (error + GetFolderResult) \<times> 's IMAPClient \<times> event list"
where
  "GetFolderMessages lib folder page pageSize c =
     (case client c of
        None \<Rightarrow> (Inl not_connected, c, [])
      | Some s \<Rightarrow>
          (case Select lib s folder False of
             (Inl err, s1) \<Rightarrow>
               (Inl (Wrap ''failed to select folder'' err), c\<lparr>client := Some s1\<rparr>,
                [EvSelect folder False])
           | (Inr mbox, s1) \<Rightarrow>
               (let totalCount = mbox_Messages mbox in
                case page_range totalCount page pageSize of
                  EmptyMailbox \<Rightarrow>
                    (Inr \<lparr>folder_Messages = [], folder_TotalCount = 0\<rparr>, c\<lparr>client := Some s1\<rparr>,
                     [EvSelect folder False])
                | PastEnd \<Rightarrow>
                    (Inr \<lparr>folder_Messages = [], folder_TotalCount = totalCount\<rparr>,
                     c\<lparr>client := Some s1\<rparr>, [EvSelect folder False])
                | PageRange to from \<Rightarrow>
                    (let seqSet = AddRange to from;
                         items = [FetchEnvelope, FetchFlags];
                         evs = [EvSelect folder False, EvFetch seqSet items,
                                EvPrintln (''Fetching messages from folder: '' @ folder)]
                     in case Fetch lib s1 seqSet items of
                          ((messages, done), s2) \<Rightarrow>
                            (let result = map envelope_message messages in
                             case done of
                               Some err \<Rightarrow>
                                 (Inl (Wrap ''failed to fetch messages'' err),
                                  c\<lparr>client := Some s2\<rparr>, evs)
                             | None \<Rightarrow>
                                 (Inr \<lparr>folder_Messages = result, folder_TotalCount = totalCount\<rparr>,
                                  c\<lparr>client := Some s2\<rparr>, evs))))))"

section \<open>The full fetch of one message\<close>

subsection \<open>The identifier\<close>

text \<open>
  \<^verbatim>\<open>strconv.ParseUint(s, 10, 32)\<close> of Go's standard library, with its result pair: the
  empty string is a syntax error; the bytes are read from the left, a byte that is
  no decimal digit is a syntax error (in base 10 a letter is a digit above the base,
  an underscore is only read in base 0, a sign is never read), and a value above
  \<open>2 ^ 32 - 1\<close> is a range error returned with that largest value. The 64-bit
  accumulator never exceeds \<open>10 * (2 ^ 32 - 1) + 9\<close>, so it is a natural number
  here and the library's test for a wrapped sum cannot fire.
\<close>

definition ErrSyntax :: error where "ErrSyntax = Msg ''invalid syntax''"
definition ErrRange :: error where "ErrRange = Msg ''value out of range''"

definition syntaxError :: "string \<Rightarrow> error" where
  "syntaxError str = NumError ''ParseUint'' str ErrSyntax"

definition rangeError :: "string \<Rightarrow> error" where
  "rangeError str = NumError ''ParseUint'' str ErrRange"

definition maxVal :: nat where "maxVal = 2 ^ 32 - 1"
definition cutoff :: nat where "cutoff = (2 ^ 64 - 1) div 10 + 1"

fun parse_digits :: "string \<Rightarrow> string \<Rightarrow> nat \<Rightarrow> nat \<times> error option" where
  "parse_digits s0 [] n = (n, None)"
| "parse_digits s0 (c # cs) n =
     (if of_char (CHR ''0'') \<le> (of_char c :: nat) \<and> (of_char c :: nat) \<le> of_char (CHR ''9'') then
        (let d = of_char c - of_char (CHR ''0'') in
         if n \<ge> cutoff then (maxVal, Some (rangeError s0))
         else
           let n1 = n * 10 + d in
           if n1 > maxVal then (maxVal, Some (rangeError s0))
           else parse_digits s0 cs n1)
      else (0, Some (syntaxError s0)))"

definition ParseUint :: "string \<Rightarrow> nat \<times> error option" where
  "ParseUint str = (if str = [] then (0, Some (syntaxError str)) else parse_digits str str 0)"

subsection \<open>The MIME walk\<close>

text \<open>
  Lines 375 to 389: what one part does to the message. An inline part overwrites
  \<open>Body\<close>; an attachment part is appended to \<open>Attachments\<close>; any other header leaves
  the message as it is.
\<close>

fun add_part :: "part \<Rightarrow> Message \<Rightarrow> Message" where
  "add_part (InlinePart b) message = message\<lparr>Body := b\<rparr>"
| "add_part (AttachmentPart filename b contentType) message =
     message\<lparr>Attachments := Attachments message @
        [\<lparr>Filename = filename, Content = b, MimeType = contentType\<rparr>]\<rparr>"
| "add_part OtherPart message = message"

text \<open>
  Lines 366 to 390, the loop \<^verbatim>\<open>for { p, err := mr.NextPart() ... }\<close>: \<^verbatim>\<open>io.EOF\<close> leaves the
  loop, any other error goes round again by \<^verbatim>\<open>continue\<close>, a part is added and the loop
  goes round again. The loop has no other exit, so the walk is a partial function:
  \<open>None\<close> is a walk that never returns.
\<close>

partial_function (option) walk_parts ::
  "('r \<Rightarrow> 'r next_part) \<Rightarrow> 'r \<Rightarrow> Message \<Rightarrow> Message option"
where
  "walk_parts nextPart mr message =
     (case nextPart mr of
        EOF \<Rightarrow> Some message
      | Failed mr1 \<Rightarrow> walk_parts nextPart mr1 message
      | Next p mr1 \<Rightarrow> walk_parts nextPart mr1 (add_part p message))"

declare walk_parts.simps [code]

text \<open>
  Lines 360 to 391, the loop over the literals of one record: a literal that
  \<open>CreateReader\<close> cannot open is skipped, every other one is walked.
\<close>

fun walk_literals :: "('l, 'r) mime_library \<Rightarrow> 'l list \<Rightarrow> Message \<Rightarrow> Message option" where
  "walk_literals mime [] message = Some message"
| "walk_literals mime (literal # rest) message =
     (case CreateReader mime literal of
        Inl err \<Rightarrow> walk_literals mime rest message
      | Inr mr \<Rightarrow>
          (case walk_parts (NextPart mime) mr message of
             None \<Rightarrow> None
           | Some message1 \<Rightarrow> walk_literals mime rest message1))"

text \<open>Lines 344 to 358: the fresh \<open>Message\<close> of a record in single-message mode.\<close>

definition full_message :: "'l imap_message \<Rightarrow> Message" where
  "full_message msg = (envelope_message msg)\<lparr>Size := msg_Size msg\<rparr>"

text \<open>
  Lines 343 to 392, the loop over the streamed records: each record replaces
  \<^verbatim>\<open>message\<close> by a fresh one and walks its literals. \<open>None\<close> inside is Go's \<^verbatim>\<open>nil\<close>
  pointer; \<open>None\<close> outside is a loop that never returns.
\<close>

fun read_records ::
  "('l, 'r) mime_library \<Rightarrow> 'l imap_message list \<Rightarrow> Message option \<Rightarrow> Message option option"
where
  "read_records mime [] message = Some message"
| "read_records mime (msg # rest) message =
     (case walk_literals mime (msg_Body msg) (full_message msg) of
        None \<Rightarrow> None
      | Some message1 \<Rightarrow> read_records mime rest (Some message1))"

subsection \<open>GetEmailByID\<close>

definition GetEmailByID ::
  "('s, 'l) imap_library \<Rightarrow> ('l, 'r) mime_library \<Rightarrow> string \<Rightarrow> string \<Rightarrow> 's IMAPClient
    \<Rightarrow> ((error + Message) \<times> 's IMAPClient \<times> event list) option"
where
  "GetEmailByID lib mime id0 folder0 c =
     (case client c of
        None \<Rightarrow> Some (Inl not_connected, c, [])
      | Some s \<Rightarrow>
          (case ParseUint id0 of
             (seqNum, Some err) \<Rightarrow> Some (Inl (Wrap ''invalid email ID'' err), c, [])
           | (seqNum, None) \<Rightarrow>
               (let folder = (if folder0 = [] then ''INBOX'' else folder0);
                    line = ''Selecting folder for email ID '' @ id0 @ '' : '' @ folder
                in case Select lib s folder False of
                     (Inl err, s1) \<Rightarrow>
                       Some (Inl (Wrap (''failed to select folder '' @ folder) err),
                             c\<lparr>client := Some s1\<rparr>, [EvPrintln line, EvSelect folder False])
                   | (Inr mbox, s1) \<Rightarrow>
                       (let seqSet = AddNum (of_nat seqNum);
                            items = [FetchEnvelope, FetchFlags, FetchBodyStructure,
                                     FetchRFC822Size, ''BODY[]''];
                            evs = [EvPrintln line, EvSelect folder False, EvFetch seqSet items]
                        in case Fetch lib s1 seqSet items of
                             ((messages, done), s2) \<Rightarrow>
                               (case read_records mime messages None of
                                  None \<Rightarrow> None
                                | Some message \<Rightarrow>
                                    (case done of
                                       Some err \<Rightarrow>
                                         Some (Inl (Wrap ''failed to fetch message'' err),
                                               c\<lparr>client := Some s2\<rparr>, evs)
                                     | None \<Rightarrow>
                                         (case message of
                                            None \<Rightarrow>
                                              Some (Inl (Msg (''message with ID '' @ id0 @ '' not found'')),
                                                    c\<lparr>client := Some s2\<rparr>, evs)
                                          | Some m \<Rightarrow>
                                              Some (Inr m, c\<lparr>client := Some s2\<rparr>, evs))))))))"

section \<open>Notions used by the statements\<close>

text \<open>
  \<open>delivers nextPart mr xs\<close>: called again and again from the state \<open>mr\<close>, the reader
  answers with the items of \<open>xs\<close> in this order and then with \<^verbatim>\<open>io.EOF\<close>. An item
  \<open>Some p\<close> is a call that returns the part \<open>p\<close>, an item \<open>None\<close> a call that fails
  with another error; either way the reader has moved on.
\<close>

fun delivers :: "('r \<Rightarrow> 'r next_part) \<Rightarrow> 'r \<Rightarrow> part option list \<Rightarrow> bool" where
  "delivers nextPart mr [] = (nextPart mr = EOF)"
| "delivers nextPart mr (x # xs) =
     (case nextPart mr of
        EOF \<Rightarrow> False
      | Failed mr1 \<Rightarrow> x = None \<and> delivers nextPart mr1 xs
      | Next p mr1 \<Rightarrow> x = Some p \<and> delivers nextPart mr1 xs)"

text \<open>What one item does to the message: a failed call nothing, a part what \<open>add_part\<close> does.\<close>

fun add_item :: "Message \<Rightarrow> part option \<Rightarrow> Message" where
  "add_item m None = m"
| "add_item m (Some p) = add_part p m"

text \<open>The contents of the inline parts and the attachments among the items, in order.\<close>

fun inline_contents :: "part option list \<Rightarrow> string list" where
  "inline_contents [] = []"
| "inline_contents (Some (InlinePart b) # xs) = b # inline_contents xs"
| "inline_contents (_ # xs) = inline_contents xs"

fun attachments_of :: "part option list \<Rightarrow> Attachment list" where
  "attachments_of [] = []"
| "attachments_of (Some (AttachmentPart filename b contentType) # xs) =
     \<lparr>Filename = filename, Content = b, MimeType = contentType\<rparr> # attachments_of xs"
| "attachments_of (_ # xs) = attachments_of xs"

text \<open>The TLS configurations among the events of an operation.\<close>

fun tls_configs :: "event list \<Rightarrow> tls_Config list" where
  "tls_configs [] = []"
| "tls_configs (EvDialTLS addr cfg # evs) = cfg # tls_configs evs"
| "tls_configs (EvStartTLS cfg # evs) = cfg # tls_configs evs"
| "tls_configs (_ # evs) = tls_configs evs"

text \<open>
  Two errors agree when they wrap the same cause (the context text may differ) or
  are equal; two page results agree when both are errors that agree or both are
  pages with equal messages and equal counts.
\<close>

fun same_error :: "error \<Rightarrow> error \<Rightarrow> bool" where
  "same_error (Wrap ctx1 e1) (Wrap ctx2 e2) = (e1 = e2)"
| "same_error e1 e2 = (e1 = e2)"

fun same_page :: "error + GetInboxResult \<Rightarrow> error + GetFolderResult \<Rightarrow> bool" where
  "same_page (Inl e1) (Inl e2) = same_error e1 e2"
| "same_page (Inr r1) (Inr r2) =
     (inbox_Messages r1 = folder_Messages r2 \<and> inbox_TotalCount r1 = folder_TotalCount r2)"
| "same_page _ _ = False"

section \<open>Scripted libraries for concrete runs\<close>

text \<open>
  A session library whose session state counts the calls made on it: every dial
  and login succeeds, \<open>Select\<close> reports \<open>count\<close> messages, \<open>Fetch\<close> streams \<open>records\<close>
  and then reports \<open>fetch_error\<close>, \<open>Logout\<close> reports \<open>logout_error\<close>.
\<close>

definition scripted_imap ::
  "uint32 \<Rightarrow> 'l imap_message list \<Rightarrow> error option \<Rightarrow> error option \<Rightarrow> (nat, 'l) imap_library"
where
  "scripted_imap count records fetch_error logout_error =
     \<lparr>Dial = (\<lambda>addr. Inr 0),
      DialTLS = (\<lambda>addr cfg. Inr 0),
      StartTLS = (\<lambda>s cfg. (None, Suc s)),
      Login = (\<lambda>s user pass. (None, Suc s)),
      Logout = (\<lambda>s. (logout_error, Suc s)),
      Select = (\<lambda>s name readOnly. (Inr \<lparr>mbox_Messages = count\<rparr>, Suc s)),
      Fetch = (\<lambda>s seqSet items. ((records, fetch_error), Suc s))\<rparr>"

text \<open>
  A MIME library whose literal is the list of items its reader delivers, and one
  whose reader fails at every call without moving on, as a reader does that has
  met the end of its input inside a part.
\<close>

fun list_next :: "part option list \<Rightarrow> part option list next_part" where
  "list_next [] = EOF"
| "list_next (None # rest) = Failed rest"
| "list_next (Some p # rest) = Next p rest"

definition list_mime :: "(part option list, part option list) mime_library" where
  "list_mime = \<lparr>CreateReader = Inr, NextPart = list_next\<rparr>"

definition stuck_mime :: "(part option list, part option list) mime_library" where
  "stuck_mime = \<lparr>CreateReader = Inr, NextPart = Failed\<rparr>"

definition example_config :: IMAPConfig where
  "example_config =
     \<lparr>Host = ''mail.example.org'', Port = 993, Username = ''user'', Password = ''secret''\<rparr>"

definition live_client :: "nat IMAPClient" where
  "live_client = \<lparr>config = example_config, client = Some 0\<rparr>"

text \<open>The same client configured for port \<open>1143\<close>, not yet connected.\<close>

definition starttls_client :: "nat IMAPClient" where
  "starttls_client = \<lparr>config = example_config\<lparr>Port := 1143\<rparr>, client = None\<rparr>"

definition example_envelope :: envelope where
  "example_envelope =
     \<lparr>env_Date = 1700000000, env_Subject = ''Minutes'',
      env_From = [\<lparr>PersonalName = ''Ana'', AtDomainList = [], MailboxName = ''ana'',
                   HostName = ''example.org''\<rparr>],
      env_To = [\<lparr>PersonalName = ''Bo'', AtDomainList = [], MailboxName = ''bo'',
                 HostName = ''example.org''\<rparr>]\<rparr>"

definition example_parts :: "part option list" where
  "example_parts =
     [Some (AttachmentPart ''a.txt'' ''AAA'' ''text/plain''),
      Some (InlinePart ''first''),
      None,
      Some (InlinePart ''second''),
      Some (AttachmentPart ''b.bin'' ''BBB'' ''application/octet-stream'')]"

definition example_record :: "part option list imap_message" where
  "example_record =
     \<lparr>SeqNum = 7, Envelope = example_envelope, msg_Flags = [''Seen''], msg_Size = 120,
      msg_Body = [example_parts]\<rparr>"

section \<open>Conversions between the integer types\<close>

text \<open>\<^verbatim>\<open>uint32(x)\<close> of an \<^verbatim>\<open>int\<close> is \<open>x\<close> modulo \<open>2 ^ 32\<close>, and \<open>x\<close> itself when it fits.\<close>

lemma unat_uint32_of_int: "unat (ucast (x :: go_int) :: uint32) = nat (sint x mod 2 ^ 32)"
proof -
  have "uint (ucast x :: uint32) = take_bit 32 (uint x)"
    by (simp add: unsigned_ucast_eq)
  also have "\<dots> = take_bit 32 (take_bit 64 (sint x))"
    by (simp add: uint_sint)
  also have "\<dots> = take_bit 32 (sint x)"
    by simp
  finally have "uint (ucast x :: uint32) = sint x mod 2 ^ 32"
    by (simp add: take_bit_eq_mod)
  then show ?thesis
    by (metis unat_eq_nat_uint)
qed

lemma unat_uint32_exact:
  assumes "0 \<le> sint (x :: go_int)" and "sint x < 2 ^ 32"
  shows "unat (ucast x :: uint32) = nat (sint x)"
  using assms by (simp add: unat_uint32_of_int)

lemma sint_mod_mult: "sint (a * b :: go_int) mod 2 ^ 32 = (sint a * sint b) mod 2 ^ 32"
proof -
  have "take_bit 32 (signed_take_bit 63 (sint a * sint b)) = take_bit 32 (sint a * sint b)"
    by (rule take_bit_signed_take_bit) simp
  then show ?thesis
    by (simp add: sint_word_mult take_bit_eq_mod)
qed

lemma sint_mod_pred: "sint (a - 1 :: go_int) mod 2 ^ 32 = (sint a - 1) mod 2 ^ 32"
proof -
  have "take_bit 32 (signed_take_bit 63 (sint a - 1)) = take_bit 32 (sint a - 1)"
    by (rule take_bit_signed_take_bit) simp
  then show ?thesis
    by (simp add: sint_word_diff take_bit_eq_mod)
qed

text \<open>
  The offset the code compares with the message count is the product of the
  integers \<open>page - 1\<close> and \<open>pageSize\<close> modulo \<open>2 ^ 32\<close>, whatever the two are.
\<close>

lemma uint32_offset:
  "unat (ucast ((page - 1) * pageSize :: go_int) :: uint32)
     = nat (((sint page - 1) * sint pageSize) mod 2 ^ 32)"
proof -
  have "sint ((page - 1) * pageSize) mod 2 ^ 32 = (sint (page - 1) * sint pageSize) mod 2 ^ 32"
    by (rule sint_mod_mult)
  also have "\<dots> = ((sint (page - 1) mod 2 ^ 32) * sint pageSize) mod 2 ^ 32"
    by (simp add: mod_mult_left_eq)
  also have "\<dots> = (((sint page - 1) mod 2 ^ 32) * sint pageSize) mod 2 ^ 32"
    by (simp only: sint_mod_pred)
  also have "\<dots> = ((sint page - 1) * sint pageSize) mod 2 ^ 32"
    by (simp add: mod_mult_left_eq)
  finally show ?thesis
    by (simp only: unat_uint32_of_int)
qed

section \<open>Pages\<close>

lemma page_range_empty:
  assumes "totalCount = 0 \<or> totalCount \<le> ucast ((page - 1) * pageSize)"
  shows "page_range totalCount page pageSize = EmptyMailbox \<and> totalCount = 0
    \<or> page_range totalCount page pageSize = PastEnd"
  using assms by (auto simp: page_range_def Let_def)

lemma page_range_PageRange:
  assumes "page_range totalCount page pageSize = PageRange to from"
  shows "ucast ((page - 1) * pageSize) < totalCount
    \<and> from = totalCount - ucast ((page - 1) * pageSize)
    \<and> to = (if from > ucast pageSize then from - ucast pageSize + 1 else 1)"
  using assms by (auto simp: page_range_def Let_def not_le split: if_splits)

text \<open>
  C1. With a live session and a mailbox that \<open>Select\<close> reports with \<open>totalCount\<close>
  messages: if \<open>totalCount\<close> is \<open>0\<close>, or the offset \<open>(page - 1) * pageSize\<close>, computed in
  Go's \<^verbatim>\<open>int\<close> and converted to \<^verbatim>\<open>uint32\<close>, is at least \<open>totalCount\<close>, then
  \<open>GetFolderMessages\<close> (for every folder) and \<open>GetInbox\<close> (the folder \<^verbatim>\<open>INBOX\<close>) return
  the empty list of messages with \<open>TotalCount = totalCount\<close>, after the selection
  alone: nothing is fetched. It holds for all \<open>page\<close> and \<open>pageSize\<close>, those from \<open>1\<close> up
  among them.
\<close>

theorem empty_page:
  assumes "client c = Some s"
    and "Select lib s folder False = (Inr mbox, s1)"
    and "mbox_Messages mbox = 0 \<or> mbox_Messages mbox \<le> ucast ((page - 1) * pageSize)"
  shows "GetFolderMessages lib folder page pageSize c =
           (Inr \<lparr>folder_Messages = [], folder_TotalCount = mbox_Messages mbox\<rparr>,
            c\<lparr>client := Some s1\<rparr>, [EvSelect folder False])
         \<and> (folder = ''INBOX'' \<longrightarrow>
              GetInbox lib page pageSize c =
                (Inr \<lparr>inbox_Messages = [], inbox_TotalCount = mbox_Messages mbox\<rparr>,
                 c\<lparr>client := Some s1\<rparr>, [EvSelect ''INBOX'' False]))"
  using page_range_empty [OF assms(3)] assms(1,2)
  by (auto simp: GetFolderMessages_def GetInbox_def Let_def)

theorem empty_page_witness:
  "GetFolderMessages (scripted_imap 25 [example_record] None None) ''INBOX'' 4 10 live_client =
     (Inr \<lparr>folder_Messages = [], folder_TotalCount = 25\<rparr>,
      live_client\<lparr>client := Some 1\<rparr>, [EvSelect ''INBOX'' False])
   \<and> GetInbox (scripted_imap 25 [example_record] None None) 4 10 live_client =
     (Inr \<lparr>inbox_Messages = [], inbox_TotalCount = 25\<rparr>,
      live_client\<lparr>client := Some 1\<rparr>, [EvSelect ''INBOX'' False])
   \<and> GetInbox (scripted_imap 0 [example_record] None None) 1 10 live_client =
     (Inr \<lparr>inbox_Messages = [], inbox_TotalCount = 0\<rparr>,
      live_client\<lparr>client := Some 1\<rparr>, [EvSelect ''INBOX'' False])"
proof -
  let ?full = "scripted_imap 25 [example_record] None None :: (nat, part option list) imap_library"
  let ?none = "scripted_imap 0 [example_record] None None :: (nat, part option list) imap_library"
  have a: "client live_client = Some 0" by (simp add: live_client_def)
  have b: "Select ?full 0 ''INBOX'' False = (Inr \<lparr>mbox_Messages = 25\<rparr>, 1)"
    by (simp add: scripted_imap_def)
  have c: "mbox_Messages \<lparr>mbox_Messages = 25\<rparr> = 0
      \<or> mbox_Messages \<lparr>mbox_Messages = 25\<rparr> \<le> ucast ((4 - 1) * 10 :: go_int)"
    by simp
  have b0: "Select ?none 0 ''INBOX'' False = (Inr \<lparr>mbox_Messages = 0\<rparr>, 1)"
    by (simp add: scripted_imap_def)
  have c0: "mbox_Messages \<lparr>mbox_Messages = 0\<rparr> = 0
      \<or> mbox_Messages \<lparr>mbox_Messages = 0\<rparr> \<le> ucast ((1 - 1) * 10 :: go_int)"
    by simp
  show ?thesis
    using empty_page [OF a b c] empty_page [OF a b0 c0] by simp
qed

lemma range_bounds:
  fixes totalCount off ps :: uint32
  assumes "off < totalCount" and "1 \<le> unat ps"
  defines "from \<equiv> totalCount - off"
  defines "to \<equiv> (if from > ps then from - ps + 1 else 1)"
  shows "1 \<le> unat to \<and> unat to \<le> unat from \<and> unat from \<le> unat totalCount
    \<and> unat from - unat to + 1 \<le> unat ps
    \<and> unat to = (if unat from > unat ps then unat from - unat ps + 1 else 1)"
proof -
  have lt0: "unat off < unat totalCount" using assms(1) by (simp add: word_less_nat_alt)
  have "off \<le> totalCount" using assms(1) by simp
  then have f: "unat from = unat totalCount - unat off"
    unfolding from_def by (rule unat_sub)
  show ?thesis
  proof (cases "from > ps")
    case True
    then have lt: "unat ps < unat from" by (simp add: word_less_nat_alt)
    have "ps \<le> from" using True by simp
    then have d: "unat (from - ps) = unat from - unat ps" by (rule unat_sub)
    have "unat (from - ps) + unat (1 :: uint32) < 2 ^ 32"
      using d lt assms(2) unsigned_less [of "from", where ?'a = nat] by simp
    then have "unat (from - ps + 1) = unat (from - ps) + unat (1 :: uint32)"
      by (simp add: unat_add_lem [THEN iffD1])
    then have "unat (from - ps + 1) = unat from - unat ps + 1"
      using d by simp
    then show ?thesis using True lt f lt0 assms(2) unfolding to_def by simp
  next
    case False
    then have "unat from \<le> unat ps" by (simp add: word_less_nat_alt not_less)
    then show ?thesis using False f lt0 unfolding to_def by (simp; arith)
  qed
qed

text \<open>
  C2 fails as stated. \<open>pageSize\<close> is an \<^verbatim>\<open>int\<close> and the code compares and subtracts
  \<^verbatim>\<open>uint32(pageSize)\<close>. With \<open>totalCount = 5\<close>, \<open>page = 1\<close> and \<open>pageSize = 2 ^ 32\<close> the
  conversion gives \<open>0\<close> and the range is \<open>to = 6\<close>, \<open>from = 5\<close>: \<open>to \<le> from\<close> fails, and
  \<open>to\<close> is not \<open>1\<close> although \<open>from\<close> is not above \<open>pageSize\<close>. With \<open>pageSize = 2 ^ 32 + 2\<close>
  the range is \<open>to = 4\<close>, \<open>from = 5\<close>, again not the \<open>to = 1\<close> of the boundary rule.
\<close>

theorem page_range_truncates_pageSize_counterexample:
  "1 \<le> sint (1 :: go_int) \<and> 1 \<le> sint (4294967296 :: go_int)
   \<and> page_range 5 1 4294967296 = PageRange 6 5
   \<and> \<not> unat (6 :: uint32) \<le> unat (5 :: uint32)
   \<and> \<not> int (unat (5 :: uint32)) > sint (4294967296 :: go_int)
   \<and> unat (6 :: uint32) \<noteq> 1
   \<and> 1 \<le> sint (4294967298 :: go_int)
   \<and> page_range 5 1 4294967298 = PageRange 4 5
   \<and> \<not> int (unat (5 :: uint32)) > sint (4294967298 :: go_int)
   \<and> unat (4 :: uint32) \<noteq> 1"
  by (simp add: page_range_def)

text \<open>
  C2, amended. For every \<open>totalCount\<close>, every \<open>page\<close> and every \<open>pageSize\<close> with
  \<open>1 \<le> pageSize < 2 ^ 32\<close> for which the computation produces a range \<open>to\<close>, \<open>from\<close>:
  \<open>1 \<le> to \<le> from \<le> totalCount\<close>, \<open>from - to + 1 \<le> pageSize\<close>, and \<open>to\<close> is
  \<open>from - pageSize + 1\<close> when \<open>from > pageSize\<close> and \<open>1\<close> otherwise.
\<close>

theorem page_range_bounds:
  assumes "page_range totalCount page pageSize = PageRange to from"
    and "1 \<le> sint pageSize" and "sint pageSize < 2 ^ 32"
  shows "1 \<le> unat to \<and> unat to \<le> unat from \<and> unat from \<le> unat totalCount
    \<and> unat from - unat to + 1 \<le> nat (sint pageSize)
    \<and> unat to = (if unat from > nat (sint pageSize)
                   then unat from - nat (sint pageSize) + 1 else 1)"
proof -
  have ps: "unat (ucast pageSize :: uint32) = nat (sint pageSize)"
    using assms(2,3) by (simp add: unat_uint32_exact)
  have r: "ucast ((page - 1) * pageSize) < totalCount"
    "from = totalCount - ucast ((page - 1) * pageSize)"
    "to = (if from > ucast pageSize then from - ucast pageSize + 1 else 1)"
    using page_range_PageRange [OF assms(1)] by simp_all
  have "1 \<le> unat (ucast pageSize :: uint32)" using ps assms(2) by simp
  from range_bounds [OF r(1) this] show ?thesis
    unfolding r(2) [symmetric] r(3) [symmetric] ps .
qed

theorem page_range_bounds_witness:
  "page_range 25 3 10 = PageRange 1 5
   \<and> (1 :: int) \<le> sint (10 :: go_int) \<and> sint (10 :: go_int) < 2 ^ 32
   \<and> 1 \<le> unat (1 :: uint32) \<and> unat (1 :: uint32) \<le> unat (5 :: uint32)
   \<and> unat (5 :: uint32) \<le> unat (25 :: uint32)
   \<and> unat (5 :: uint32) - unat (1 :: uint32) + 1 \<le> nat (sint (10 :: go_int))
   \<and> page_range 25 1 10 = PageRange 16 25"
proof -
  have a: "page_range 25 3 10 = PageRange 1 5" by (simp add: page_range_def)
  have b: "1 \<le> sint (10 :: go_int)" by simp
  have c: "sint (10 :: go_int) < 2 ^ 32" by simp
  have d: "page_range 25 1 10 = PageRange 16 25" by (simp add: page_range_def)
  show ?thesis using page_range_bounds [OF a b c] a d by simp
qed

text \<open>
  C5. In a range fetch (the session is live, the mailbox selected, the range
  computed) whose \<open>Fetch\<close> streams any records and then reports the error \<open>err\<close>:
  \<open>GetFolderMessages\<close> and \<open>GetInbox\<close> return \<open>err\<close> wrapped as
  \<^verbatim>\<open>failed to fetch messages\<close>; the result is the error alone, so none of the messages
  assembled from the streamed records reaches the caller.
\<close>

theorem deferred_fetch_error:
  assumes "client c = Some s"
    and "Select lib s folder False = (Inr mbox, s1)"
    and "page_range (mbox_Messages mbox) page pageSize = PageRange to from"
    and "Fetch lib s1 (AddRange to from) [FetchEnvelope, FetchFlags] = ((messages, Some err), s2)"
  shows "fst (GetFolderMessages lib folder page pageSize c)
           = Inl (Wrap ''failed to fetch messages'' err)
         \<and> (folder = ''INBOX'' \<longrightarrow>
              fst (GetInbox lib page pageSize c) = Inl (Wrap ''failed to fetch messages'' err))"
  using assms by (auto simp: GetFolderMessages_def GetInbox_def Let_def)

theorem deferred_fetch_error_witness:
  "fst (GetFolderMessages (scripted_imap 25 [example_record] (Some (Msg ''connection reset'')) None)
          ''INBOX'' 1 10 live_client)
     = Inl (Wrap ''failed to fetch messages'' (Msg ''connection reset''))
   \<and> fst (GetInbox (scripted_imap 25 [example_record] (Some (Msg ''connection reset'')) None)
          1 10 live_client)
     = Inl (Wrap ''failed to fetch messages'' (Msg ''connection reset''))"
proof -
  let ?lib = "scripted_imap 25 [example_record] (Some (Msg ''connection reset'')) None
                :: (nat, part option list) imap_library"
  have a: "client live_client = Some 0" by (simp add: live_client_def)
  have b: "Select ?lib 0 ''INBOX'' False = (Inr \<lparr>mbox_Messages = 25\<rparr>, 1)"
    by (simp add: scripted_imap_def)
  have c: "page_range (mbox_Messages \<lparr>mbox_Messages = 25\<rparr>) 1 10 = PageRange 16 25"
    by (simp add: page_range_def)
  have d: "Fetch ?lib 1 (AddRange 16 25) [FetchEnvelope, FetchFlags]
             = (([example_record], Some (Msg ''connection reset'')), 2)"
    by (simp add: scripted_imap_def)
  show ?thesis
    using deferred_fetch_error [OF a b c d] by simp
qed

text \<open>
  C10. For every client state, every library and all \<open>page\<close> and \<open>pageSize\<close>,
  \<open>GetInbox\<close> and \<open>GetFolderMessages\<close> of \<^verbatim>\<open>INBOX\<close> agree: both return a page, with
  equal messages and equal counts, or both return an error, with the same cause;
  they leave the client in the same state and make the same library calls in the
  same order. (The context text of the selection error and the line printed
  before the fetch differ.)
\<close>

theorem inbox_is_folder_INBOX:
  "same_page (fst (GetInbox lib page pageSize c))
             (fst (GetFolderMessages lib ''INBOX'' page pageSize c))
   \<and> fst (snd (GetInbox lib page pageSize c))
       = fst (snd (GetFolderMessages lib ''INBOX'' page pageSize c))
   \<and> filter is_call (snd (snd (GetInbox lib page pageSize c)))
       = filter is_call (snd (snd (GetFolderMessages lib ''INBOX'' page pageSize c)))"
  by (simp add: GetInbox_def GetFolderMessages_def Let_def not_connected_def
      split: option.split prod.split sum.split page_range.split)

theorem inbox_is_folder_INBOX_witness:
  "same_page (fst (GetInbox (scripted_imap 25 [example_record] None None) 1 10 live_client))
             (fst (GetFolderMessages (scripted_imap 25 [example_record] None None)
                     ''INBOX'' 1 10 live_client))
   \<and> fst (snd (GetInbox (scripted_imap 25 [example_record] None None) 1 10 live_client))
       = fst (snd (GetFolderMessages (scripted_imap 25 [example_record] None None)
                     ''INBOX'' 1 10 live_client))
   \<and> filter is_call (snd (snd (GetInbox (scripted_imap 25 [example_record] None None)
                                    1 10 live_client)))
       = filter is_call (snd (snd (GetFolderMessages (scripted_imap 25 [example_record] None None)
                                    ''INBOX'' 1 10 live_client)))"
  by (rule inbox_is_folder_INBOX)

section \<open>The session\<close>

text \<open>
  C4 fails as stated. With port \<open>993\<close>, which is not \<open>1143\<close>, \<open>Connect\<close> dials with
  \<^verbatim>\<open>DialTLS\<close> and a TLS configuration whose \<open>InsecureSkipVerify\<close> is set.
\<close>

theorem connect_skips_verification_on_993_counterexample:
  "Port (config live_client) \<noteq> 1143
   \<and> Connect (scripted_imap 25 [example_record] None None) live_client =
       (None, live_client\<lparr>client := Some 1\<rparr>,
        [EvDialTLS ''mail.example.org:993'' \<lparr>InsecureSkipVerify = True\<rparr>,
         EvLogin ''user'' ''secret''])"
  by (simp add: Connect_def login_step_def scripted_imap_def live_client_def example_config_def
      server_address_def decimal_int_def decimal.simps digit_char_def Let_def)

lemma login_step_tls_configs:
  "tls_configs (snd (snd (login_step lib s evs c))) = tls_configs evs"
proof -
  have "tls_configs (evs @ more) = tls_configs evs"
    if "tls_configs more = []" for more
    using that by (induction evs rule: tls_configs.induct) simp_all
  then show ?thesis
    by (simp add: login_step_def Let_def split: prod.split option.split)
qed

text \<open>
  C4, amended. \<open>Connect\<close> applies the certificate-validation bypass on every
  configured port: each TLS configuration it hands to the library has
  \<open>InsecureSkipVerify\<close> set. The port only chooses the transport. On \<open>1143\<close> it
  dials in plain text with \<^verbatim>\<open>Dial\<close> and, once the dial has succeeded, upgrades with
  \<^verbatim>\<open>StartTLS\<close> using a configuration with \<open>InsecureSkipVerify\<close> set, before
  anything else is sent (a failed dial is the only event). On every other port
  it dials with \<^verbatim>\<open>DialTLS\<close> using such a configuration.
\<close>

theorem connect_always_skips_verification:
  "(\<forall>cfg \<in> set (tls_configs (snd (snd (Connect lib c)))). InsecureSkipVerify cfg)
   \<and> (Port (config c) \<noteq> 1143 \<longrightarrow>
        (\<exists>rest. snd (snd (Connect lib c)) =
           EvDialTLS (server_address (config c)) \<lparr>InsecureSkipVerify = True\<rparr> # rest))
   \<and> (Port (config c) = 1143 \<longrightarrow>
        (case Dial lib (server_address (config c)) of
           Inl err \<Rightarrow> snd (snd (Connect lib c)) = [EvDial (server_address (config c))]
         | Inr s0 \<Rightarrow>
             (\<exists>rest. snd (snd (Connect lib c)) =
                EvDial (server_address (config c))
                # EvStartTLS \<lparr>InsecureSkipVerify = True\<rparr> # rest)))"
  by (auto simp: Connect_def Let_def login_step_tls_configs login_step_def
      split: sum.splits prod.splits option.splits)

theorem connect_always_skips_verification_witness:
  "InsecureSkipVerify \<lparr>InsecureSkipVerify = True\<rparr>
   \<and> (\<exists>rest. snd (snd (Connect (scripted_imap 25 [example_record] None None) live_client)) =
           EvDialTLS ''mail.example.org:993'' \<lparr>InsecureSkipVerify = True\<rparr> # rest)
   \<and> (\<exists>rest. snd (snd (Connect (scripted_imap 25 [example_record] None None) starttls_client)) =
           EvDial ''mail.example.org:1143'' # EvStartTLS \<lparr>InsecureSkipVerify = True\<rparr> # rest)"
proof -
  let ?lib = "scripted_imap 25 [example_record] None None :: (nat, part option list) imap_library"
  have p: "Port (config live_client) \<noteq> 1143"
    by (simp add: live_client_def example_config_def)
  have a: "server_address (config live_client) = ''mail.example.org:993''"
    by (simp add: live_client_def example_config_def server_address_def decimal_int_def
        decimal.simps digit_char_def)
  have q: "Port (config starttls_client) = 1143"
    by (simp add: starttls_client_def)
  have b: "server_address (config starttls_client) = ''mail.example.org:1143''"
    by (simp add: starttls_client_def example_config_def server_address_def decimal_int_def
        decimal.simps digit_char_def)
  have d: "Dial ?lib ''mail.example.org:1143'' = Inr 0"
    by (simp add: scripted_imap_def)
  show ?thesis
    using connect_always_skips_verification [of ?lib live_client]
      connect_always_skips_verification [of ?lib starttls_client] p a q b d
    by simp
qed

text \<open>
  C9 fails as stated. With a live session and a logout that reports
  \<^verbatim>\<open>broken pipe\<close>, \<open>Disconnect\<close> returns the wrapped error and the client still holds
  the session; a \<open>GetInbox\<close> that follows is served from it and returns a page.
\<close>

theorem failed_logout_keeps_session_counterexample:
  "Disconnect (scripted_imap 25 [example_record] None (Some (Msg ''broken pipe''))) live_client =
     (Some (Wrap ''failed to logout from IMAP server'' (Msg ''broken pipe'')),
      live_client\<lparr>client := Some 1\<rparr>, [EvLogout])
   \<and> client (live_client\<lparr>client := Some (1 :: nat)\<rparr>) \<noteq> None
   \<and> fst (GetInbox (scripted_imap 25 [example_record] None (Some (Msg ''broken pipe''))) 4 10
          (live_client\<lparr>client := Some 1\<rparr>))
       = Inr \<lparr>inbox_Messages = [], inbox_TotalCount = 25\<rparr>"
  by (simp add: Disconnect_def GetInbox_def scripted_imap_def live_client_def page_range_def
      Let_def)

lemma GetInbox_connected:
  "client c = Some s \<Longrightarrow> fst (GetInbox lib page pageSize c) \<noteq> Inl not_connected"
  by (simp add: GetInbox_def Let_def not_connected_def
      split: prod.split sum.split page_range.split option.split)

lemma GetFolderMessages_connected:
  "client c = Some s \<Longrightarrow> fst (GetFolderMessages lib folder page pageSize c) \<noteq> Inl not_connected"
  by (simp add: GetFolderMessages_def Let_def not_connected_def
      split: prod.split sum.split page_range.split option.split)

text \<open>
  C9, amended. When \<open>Disconnect\<close> is called with a live session and the remote
  logout reports an error, \<open>Disconnect\<close> returns that error, wrapped as
  \<^verbatim>\<open>failed to logout from IMAP server\<close>, and the session reference is kept, not
  cleared: a page operation that follows does not report \<^verbatim>\<open>not connected\<close>.
\<close>

theorem failed_logout_keeps_session:
  assumes "client c = Some s" and "Logout lib s = (Some err, s1)"
  shows "Disconnect lib c =
           (Some (Wrap ''failed to logout from IMAP server'' err), c\<lparr>client := Some s1\<rparr>,
            [EvLogout])
         \<and> fst (GetInbox lib page pageSize (fst (snd (Disconnect lib c)))) \<noteq> Inl not_connected
         \<and> fst (GetFolderMessages lib folder page pageSize (fst (snd (Disconnect lib c))))
             \<noteq> Inl not_connected"
proof -
  have d: "Disconnect lib c =
      (Some (Wrap ''failed to logout from IMAP server'' err), c\<lparr>client := Some s1\<rparr>, [EvLogout])"
    using assms by (simp add: Disconnect_def)
  have "client (c\<lparr>client := Some s1\<rparr>) = Some s1" by simp
  then show ?thesis
    using d GetInbox_connected GetFolderMessages_connected by (metis fst_conv snd_conv)
qed

theorem failed_logout_keeps_session_witness:
  "Disconnect (scripted_imap 25 [example_record] None (Some (Msg ''broken pipe''))) live_client =
     (Some (Wrap ''failed to logout from IMAP server'' (Msg ''broken pipe'')),
      live_client\<lparr>client := Some 1\<rparr>, [EvLogout])"
proof -
  let ?lib = "scripted_imap 25 [example_record] None (Some (Msg ''broken pipe''))
                :: (nat, part option list) imap_library"
  have a: "client live_client = Some 0" by (simp add: live_client_def)
  have b: "Logout ?lib 0 = (Some (Msg ''broken pipe''), 1)" by (simp add: scripted_imap_def)
  show ?thesis using failed_logout_keeps_session [OF a b] by simp
qed

text \<open>The other direction: a logout that succeeds clears the session reference.\<close>

lemma successful_logout_clears_session:
  assumes "client c = Some s" and "Logout lib s = (None, s1)"
  shows "Disconnect lib c = (None, c\<lparr>client := None\<rparr>, [EvLogout])"
  using assms by (simp add: Disconnect_def)

section \<open>The full fetch\<close>

text \<open>
  C6. With a live session, for every \<open>id\<close> that \<open>ParseUint\<close> rejects with the error
  \<open>err\<close>, \<open>GetEmailByID\<close> returns \<open>err\<close> wrapped as \<^verbatim>\<open>invalid email ID\<close>, whatever the
  folder and the libraries; the client is unchanged and no event happened: no
  mailbox was selected and nothing was fetched.
\<close>

theorem invalid_id_rejected:
  assumes "client c = Some s" and "snd (ParseUint id0) = Some err"
  shows "GetEmailByID lib mime id0 folder c = Some (Inl (Wrap ''invalid email ID'' err), c, [])"
  using assms by (cases "ParseUint id0") (simp add: GetEmailByID_def)

lemma ParseUint_not_a_number:
  "ParseUint ''not-a-number''
     = (0, Some (NumError ''ParseUint'' ''not-a-number'' (Msg ''invalid syntax'')))"
  by (simp add: ParseUint_def syntaxError_def ErrSyntax_def)

theorem invalid_id_rejected_witness:
  "GetEmailByID (scripted_imap 25 [example_record] None None) list_mime ''not-a-number'' ''INBOX''
     live_client
   = Some (Inl (Wrap ''invalid email ID''
                 (NumError ''ParseUint'' ''not-a-number'' (Msg ''invalid syntax''))),
           live_client, [])"
proof -
  have a: "client live_client = Some 0" by (simp add: live_client_def)
  have b: "snd (ParseUint ''not-a-number'')
             = Some (NumError ''ParseUint'' ''not-a-number'' (Msg ''invalid syntax''))"
    by (simp add: ParseUint_not_a_number)
  show ?thesis by (rule invalid_id_rejected [OF a b])
qed

text \<open>
  C7. With a live session, an \<open>id\<close> that parses as the sequence number \<open>seqNum\<close> and
  a folder that is selected: if the fetch of that one number streams no record and
  reports no error, \<open>GetEmailByID\<close> returns the error
  \<^verbatim>\<open>message with ID <id> not found\<close> and no message.
\<close>

theorem no_record_not_found:
  assumes "client c = Some s"
    and "ParseUint id0 = (seqNum, None)"
    and "Select lib s (if folder = [] then ''INBOX'' else folder) False = (Inr mbox, s1)"
    and "Fetch lib s1 (AddNum (of_nat seqNum))
           [FetchEnvelope, FetchFlags, FetchBodyStructure, FetchRFC822Size, ''BODY[]'']
         = (([], None), s2)"
  shows "GetEmailByID lib mime id0 folder c =
           Some (Inl (Msg (''message with ID '' @ id0 @ '' not found'')), c\<lparr>client := Some s2\<rparr>,
                 [EvPrintln (''Selecting folder for email ID '' @ id0 @ '' : ''
                             @ (if folder = [] then ''INBOX'' else folder)),
                  EvSelect (if folder = [] then ''INBOX'' else folder) False,
                  EvFetch (AddNum (of_nat seqNum))
                    [FetchEnvelope, FetchFlags, FetchBodyStructure, FetchRFC822Size, ''BODY[]'']])"
  using assms by (simp add: GetEmailByID_def Let_def)

lemma ParseUint_42: "ParseUint ''42'' = (42, None)"
  by (simp add: ParseUint_def maxVal_def cutoff_def Let_def)

theorem no_record_not_found_witness:
  "GetEmailByID (scripted_imap 25 [] None None) list_mime ''42'' [] live_client
     = Some (Inl (Msg ''message with ID 42 not found''), live_client\<lparr>client := Some 2\<rparr>,
             [EvPrintln ''Selecting folder for email ID 42 : INBOX'',
              EvSelect ''INBOX'' False,
              EvFetch (AddNum 42)
                [FetchEnvelope, FetchFlags, FetchBodyStructure, FetchRFC822Size, ''BODY[]'']])"
proof -
  let ?lib = "scripted_imap 25 [] None None :: (nat, part option list) imap_library"
  have a: "client live_client = Some 0" by (simp add: live_client_def)
  have c: "Select ?lib 0 (if ([] :: string) = [] then ''INBOX'' else []) False
             = (Inr \<lparr>mbox_Messages = 25\<rparr>, 1)"
    by (simp add: scripted_imap_def)
  have d: "Fetch ?lib 1 (AddNum (of_nat 42))
             [FetchEnvelope, FetchFlags, FetchBodyStructure, FetchRFC822Size, ''BODY[]'']
           = (([], None), 2)"
    by (simp add: scripted_imap_def)
  show ?thesis
    using no_record_not_found [OF a ParseUint_42 c d, of list_mime] by simp
qed

section \<open>The MIME walk\<close>

lemma walk_parts_delivers:
  "delivers nextPart mr xs \<Longrightarrow> walk_parts nextPart mr m = Some (foldl add_item m xs)"
proof (induction xs arbitrary: mr m)
  case Nil
  then show ?case by (subst walk_parts.simps) simp
next
  case (Cons x xs)
  show ?case
  proof (cases "nextPart mr")
    case EOF
    with Cons.prems show ?thesis by simp
  next
    case (Failed mr1)
    with Cons.prems have "x = None" "delivers nextPart mr1 xs" by simp_all
    with Cons.IH [of mr1 m] Failed show ?thesis
      by (subst walk_parts.simps) simp
  next
    case (Next p mr1)
    with Cons.prems have "x = Some p" "delivers nextPart mr1 xs" by simp_all
    with Cons.IH [of mr1 "add_part p m"] Next show ?thesis
      by (subst walk_parts.simps) simp
  qed
qed

lemma foldl_add_item:
  "foldl add_item m xs =
     m\<lparr>Body := (if inline_contents xs = [] then Body m else last (inline_contents xs)),
       Attachments := Attachments m @ attachments_of xs\<rparr>"
proof (induction xs arbitrary: m)
  case Nil
  show ?case by simp
next
  case (Cons x xs)
  show ?case
  proof (cases x)
    case None
    then show ?thesis using Cons.IH [of m] by simp
  next
    case (Some p)
    then show ?thesis using Cons.IH [of "add_part p m"] by (cases p) simp_all
  qed
qed

text \<open>
  The walk of one literal from any message: it returns, the body is the content
  of the last inline part if there is one and is left alone otherwise, and the
  attachments are appended in the order met.
\<close>

lemma walk_literal_delivers:
  assumes "CreateReader mime literal = Inr mr" and "delivers (NextPart mime) mr xs"
  shows "walk_literals mime [literal] m =
           Some (m\<lparr>Body := (if inline_contents xs = [] then Body m
                             else last (inline_contents xs)),
                   Attachments := Attachments m @ attachments_of xs\<rparr>)"
  using assms by (simp add: walk_parts_delivers foldl_add_item)

text \<open>
  C3. For a record with one body literal that opens as a reader, whose reader
  delivers the items \<open>xs\<close> in document order and then \<^verbatim>\<open>io.EOF\<close>: the walk from the
  record's fresh message returns; \<open>Body\<close> is the content of the last inline part
  among \<open>xs\<close> (and empty if there is none), whatever lies between and around the
  inline parts; \<open>Attachments\<close> is exactly the list of the attachment parts among
  \<open>xs\<close>, in the order met; every other field is as in the fresh message.
\<close>

theorem walker_body_and_attachments:
  assumes "CreateReader mime literal = Inr mr" and "delivers (NextPart mime) mr xs"
  shows "walk_literals mime [literal] (full_message msg) =
           Some ((full_message msg)
                  \<lparr>Body := (if inline_contents xs = [] then [] else last (inline_contents xs)),
                   Attachments := attachments_of xs\<rparr>)"
proof -
  have "Body (full_message msg) = []" "Attachments (full_message msg) = []"
    by (simp_all add: full_message_def envelope_message_def)
  then show ?thesis
    using walk_literal_delivers [OF assms, of "full_message msg"] by simp
qed

lemma delivers_list_next: "delivers list_next xs xs"
proof (induction xs)
  case Nil
  show ?case by simp
next
  case (Cons x xs)
  then show ?case by (cases x) simp_all
qed

theorem walker_body_and_attachments_witness:
  "walk_literals list_mime [example_parts] (full_message example_record) =
     Some ((full_message example_record)
            \<lparr>Body := ''second'',
             Attachments :=
               [\<lparr>Filename = ''a.txt'', Content = ''AAA'', MimeType = ''text/plain''\<rparr>,
                \<lparr>Filename = ''b.bin'', Content = ''BBB'',
                   MimeType = ''application/octet-stream''\<rparr>]\<rparr>)"
proof -
  have a: "CreateReader list_mime example_parts = Inr example_parts"
    by (simp add: list_mime_def)
  have b: "delivers (NextPart list_mime) example_parts example_parts"
    by (simp add: list_mime_def delivers_list_next)
  have c: "inline_contents example_parts = [''first'', ''second'']"
    by (simp add: example_parts_def)
  have d: "attachments_of example_parts =
      [\<lparr>Filename = ''a.txt'', Content = ''AAA'', MimeType = ''text/plain''\<rparr>,
       \<lparr>Filename = ''b.bin'', Content = ''BBB'', MimeType = ''application/octet-stream''\<rparr>]"
    by (simp add: example_parts_def)
  show ?thesis
    using walker_body_and_attachments [OF a b, of example_record]
    unfolding c d by simp
qed

text \<open>
  A reader that answers a call with an error other than \<^verbatim>\<open>io.EOF\<close> and stays in
  the same state: the walk calls it again and again and never returns.
\<close>

lemma walk_parts_stuck:
  assumes "nextPart mr = Failed mr"
  shows "walk_parts nextPart mr message = None"
proof -
  have "r \<noteq> mr \<or> np \<noteq> nextPart" if "walk_parts np r m = Some m'" for np r m m'
    using that
  proof (induction rule: walk_parts.raw_induct [rotated 1, consumes 1])
    case (1 walk np r m m')
    show ?case
    proof (cases "r = mr \<and> np = nextPart")
      case True
      with 1(2) assms have "walk nextPart mr m = Some m'" by simp
      from 1(1) [OF this] show ?thesis by simp
    next
      case False
      then show ?thesis by auto
    qed
  qed
  then show ?thesis by (cases "walk_parts nextPart mr message") auto
qed

lemma ParseUint_7: "ParseUint ''7'' = (7, None)"
  by (simp add: ParseUint_def maxVal_def cutoff_def Let_def)

lemma read_records_stuck: "read_records stuck_mime [example_record] None = None"
proof -
  have "walk_parts (NextPart stuck_mime) example_parts (full_message example_record) = None"
    by (rule walk_parts_stuck) (simp add: stuck_mime_def)
  then have "walk_literals stuck_mime [example_parts] (full_message example_record) = None"
    by (simp add: stuck_mime_def)
  moreover have "msg_Body example_record = [example_parts]"
    by (simp add: example_record_def)
  ultimately show ?thesis by simp
qed

text \<open>
  C8 fails on the code. The session is live, the identifier \<^verbatim>\<open>7\<close> parses, the
  mailbox is selected and the fetch streams one record without error; the reader
  of its body literal fails at every call with an error that is not \<^verbatim>\<open>io.EOF\<close>.
  The walk takes the \<^verbatim>\<open>continue\<close> every time, and \<open>GetEmailByID\<close> never returns.
\<close>

theorem stuck_reader_never_returns:
  "GetEmailByID (scripted_imap 25 [example_record] None None) stuck_mime ''7'' ''INBOX'' live_client
     = None"
proof -
  let ?lib = "scripted_imap 25 [example_record] None None :: (nat, part option list) imap_library"
  have f: "Fetch ?lib s seqSet items = (([example_record], None), Suc s)" for s seqSet items
    by (simp add: scripted_imap_def)
  have sel: "Select ?lib s name ro = (Inr \<lparr>mbox_Messages = 25\<rparr>, Suc s)" for s name ro
    by (simp add: scripted_imap_def)
  have cl: "client live_client = Some 0" by (simp add: live_client_def)
  show ?thesis
    unfolding GetEmailByID_def Let_def
    by (simp only: cl ParseUint_7 f sel read_records_stuck option.case prod.case sum.case)
qed

end
